theory Spec2Isabelle
  imports Main
begin

section \<open>Data model\<close>

text \<open>
  The library is JavaScript: objects are shared by reference and their fields can be
  written after construction. The model therefore keeps an explicit store. A reference is
  an address; every field read goes through the store at the time of the read.
\<close>

type_synonym ref = nat

text \<open>
  \<^verbatim>\<open>class ToolBuilder\<close> of \<^verbatim>\<open>tool.ts\<close>: a public \<^verbatim>\<open>description\<close> and an
  \<^verbatim>\<open>inputSchema\<close> that is \<^verbatim>\<open>undefined\<close> (\<open>None\<close>) until \<^verbatim>\<open>input\<close> is called.
  The schema is a handle of the validation library, opaque here: the type \<open>'z\<close>.
\<close>

record 'z ToolBuilder =
  description :: string
  inputSchema :: "'z option"

text \<open>
  \<^verbatim>\<open>type Args = { ctx, input }\<close> of \<^verbatim>\<open>types.ts\<close>. A context is any JavaScript value,
  \<^verbatim>\<open>undefined\<close> included: \<open>None\<close> stands for \<^verbatim>\<open>undefined\<close>.
\<close>

record ('c, 'i) Args =
  ctx :: "'c option"
  input :: 'i

text \<open>
  \<^verbatim>\<open>class Tool\<close>: the two constructor parameters are its only fields, a reference to
  the builder and the handler function \<^verbatim>\<open>fn\<close>. A handler either fails (it throws, or the
  promise it returns rejects: \<open>Inl\<close>) or yields a result (\<open>Inr\<close>, the awaited value).
  No statement of the library assigns to a field of a Tool, so a Tool is a value here.
\<close>

record ('c, 'i, 'e, 'r) Tool =
  builder :: ref
  fn :: "('c, 'i) Args \<Rightarrow> 'e + 'r"

text \<open>
  A tool tree: the value under a key is a Tool (\<^verbatim>\<open>tool instanceof Tool\<close>) or a nested
  mapping. A mapping is the list of its entries in the order \<^verbatim>\<open>Object.entries\<close>
  enumerates them.
\<close>

datatype 't RootTools = IsTool 't | Nested "(string \<times> 't RootTools) list"

section \<open>The tool tree resolver\<close>

text \<open>
  \<^verbatim>\<open>const fullName = parentName ? `${parentName}.${name}` : name\<close>. The optional
  parameter is \<open>None\<close> when it is not passed. The test is JavaScript truthiness: an
  \<^verbatim>\<open>undefined\<close> parent and the empty string both take the second branch.
\<close>

definition fullName :: "string option \<Rightarrow> string \<Rightarrow> string" where
  "fullName parentName name =
     (case parentName of
        None \<Rightarrow> name
      | Some p \<Rightarrow> if p = [] then name else p @ ''.'' @ name)"

text \<open>
  \<^verbatim>\<open>resolveTools\<close> of \<^verbatim>\<open>index.ts\<close>: the \<^verbatim>\<open>for\<close> loop over the entries is the
  recursion on the list, \<^verbatim>\<open>results.push\<close> puts the entry's pairs before those of the
  entries that follow.
\<close>

function resolveTools ::
  "(string \<times> 't RootTools) list \<Rightarrow> string option \<Rightarrow> (string \<times> 't) list" where
  "resolveTools [] parentName = []"
| "resolveTools ((name, IsTool tool) # rest) parentName =
     (fullName parentName name, tool) # resolveTools rest parentName"
| "resolveTools ((name, Nested tools) # rest) parentName =
     resolveTools tools (Some (fullName parentName name)) @ resolveTools rest parentName"
  by pat_completeness auto
termination
  by (relation "measure (\<lambda>(tools, parentName). size_list (size_prod (\<lambda>_. 0) size) tools)") auto

section \<open>The builder and the Tool\<close>

text \<open>
  \<^verbatim>\<open>class RPC\<close> of \<^verbatim>\<open>index.ts\<close>: the optional context factory and the metadata. A
  factory takes the authentication info and fails (\<open>Inl\<close>: it throws, or its promise
  rejects) or yields the awaited context, which may be \<^verbatim>\<open>undefined\<close>. The source's
  field \<^verbatim>\<open>_metadata\<close> is \<open>rpc_metadata\<close> here (a name cannot start with an underscore).
\<close>

record ('a, 'c, 'e, 'm) RPC =
  createContext :: "('a \<Rightarrow> 'e + 'c option) option"
  rpc_metadata :: "string \<rightharpoonup> 'm"

text \<open>
  The arrow function that \<^verbatim>\<open>register\<close> passes to the server is a closure over two
  variables, \<^verbatim>\<open>rpc\<close> (a reference to the registry) and \<^verbatim>\<open>tool\<close>. The model keeps the
  closure as its captured variables; \<open>call\<close> below is its body.
\<close>

datatype ('c, 'i, 'e, 'r) callback = Callback (cb_rpc: ref) (cb_tool: "('c, 'i, 'e, 'r) Tool")

text \<open>
  The server is the external \<^verbatim>\<open>McpServer\<close>; the library only calls its method
  \<^verbatim>\<open>tool(name, description, inputSchema, cb)\<close>. A server is modelled by its tool table:
  the installations it has received, in the order of the calls.
\<close>

record ('z, 'c, 'i, 'e, 'r) installation =
  inst_name :: string
  inst_description :: string
  inst_inputSchema :: "'z option"
  inst_cb :: "('c, 'i, 'e, 'r) callback"

record ('z, 'a, 'c, 'i, 'e, 'r, 'm) store =
  builders :: "ref \<Rightarrow> 'z ToolBuilder"
  next_builder :: ref
  rpcs :: "ref \<Rightarrow> ('a, 'c, 'e, 'm) RPC"
  next_rpc :: ref
  servers :: "ref \<Rightarrow> ('z, 'c, 'i, 'e, 'r) installation list"

text \<open>\<^verbatim>\<open>new ToolBuilder(description)\<close>: a fresh object, \<^verbatim>\<open>inputSchema\<close> undefined.\<close>

definition new_ToolBuilder ::
  "string \<Rightarrow> ('z, 'a, 'c, 'i, 'e, 'r, 'm) store \<Rightarrow> ref \<times> ('z, 'a, 'c, 'i, 'e, 'r, 'm) store" where
  "new_ToolBuilder d \<sigma> =
     (next_builder \<sigma>,
      \<sigma>\<lparr>builders := (builders \<sigma>)(next_builder \<sigma> := \<lparr>description = d, inputSchema = None\<rparr>),
        next_builder := Suc (next_builder \<sigma>)\<rparr>)"

text \<open>\<^verbatim>\<open>input(schema) { this.inputSchema = schema; return this }\<close>\<close>

definition ToolBuilder_input ::
  "ref \<Rightarrow> 'z \<Rightarrow> ('z, 'a, 'c, 'i, 'e, 'r, 'm) store \<Rightarrow> ref \<times> ('z, 'a, 'c, 'i, 'e, 'r, 'm) store" where
  "ToolBuilder_input this schema \<sigma> =
     (this, \<sigma>\<lparr>builders := (builders \<sigma>)(this := (builders \<sigma> this)\<lparr>inputSchema := Some schema\<rparr>)\<rparr>)"

text \<open>\<^verbatim>\<open>handler(fn) { return new Tool(this, fn) }\<close>: the store is not written.\<close>

definition ToolBuilder_handler ::
  "ref \<Rightarrow> (('c, 'i) Args \<Rightarrow> 'e + 'r) \<Rightarrow> ('c, 'i, 'e, 'r) Tool" where
  "ToolBuilder_handler this f = \<lparr>builder = this, fn = f\<rparr>"

text \<open>
  The getters \<^verbatim>\<open>get description() { return this.builder.description }\<close> and
  \<^verbatim>\<open>get input() { return this.builder.inputSchema }\<close> read the builder when they are called.
\<close>

definition Tool_description ::
  "('z, 'a, 'c, 'i, 'e, 'r, 'm) store \<Rightarrow> ('c, 'i, 'e, 'r) Tool \<Rightarrow> string" where
  "Tool_description \<sigma> t = description (builders \<sigma> (builder t))"

definition Tool_input ::
  "('z, 'a, 'c, 'i, 'e, 'r, 'm) store \<Rightarrow> ('c, 'i, 'e, 'r) Tool \<Rightarrow> 'z option" where
  "Tool_input \<sigma> t = inputSchema (builders \<sigma> (builder t))"

section \<open>The registry\<close>

text \<open>The constructor of \<^verbatim>\<open>RPC\<close>; \<^verbatim>\<open>_metadata\<close> starts as the empty object.\<close>

definition new_RPC ::
  "('a \<Rightarrow> 'e + 'c option) option \<Rightarrow> ('z, 'a, 'c, 'i, 'e, 'r, 'm) store
     \<Rightarrow> ref \<times> ('z, 'a, 'c, 'i, 'e, 'r, 'm) store" where
  "new_RPC f \<sigma> =
     (next_rpc \<sigma>,
      \<sigma>\<lparr>rpcs := (rpcs \<sigma>)(next_rpc \<sigma> := \<lparr>createContext = f, rpc_metadata = Map.empty\<rparr>),
        next_rpc := Suc (next_rpc \<sigma>)\<rparr>)"

definition createRPCBuilder ::
  "('z, 'a, 'c, 'i, 'e, 'r, 'm) store \<Rightarrow> ref \<times> ('z, 'a, 'c, 'i, 'e, 'r, 'm) store" where
  "createRPCBuilder \<sigma> = new_RPC None \<sigma>"

text \<open>\<^verbatim>\<open>context(createContext) { this.createContext = createContext; return this }\<close>\<close>

definition RPC_context ::
  "ref \<Rightarrow> ('a \<Rightarrow> 'e + 'c option) \<Rightarrow> ('z, 'a, 'c, 'i, 'e, 'r, 'm) store
     \<Rightarrow> ref \<times> ('z, 'a, 'c, 'i, 'e, 'r, 'm) store" where
  "RPC_context this f \<sigma> =
     (this, \<sigma>\<lparr>rpcs := (rpcs \<sigma>)(this := (rpcs \<sigma> this)\<lparr>createContext := Some f\<rparr>)\<rparr>)"

text \<open>\<^verbatim>\<open>metadata(metadata) { this._metadata = metadata; return this }\<close>\<close>

definition RPC_metadata ::
  "ref \<Rightarrow> (string \<rightharpoonup> 'm) \<Rightarrow> ('z, 'a, 'c, 'i, 'e, 'r, 'm) store
     \<Rightarrow> ref \<times> ('z, 'a, 'c, 'i, 'e, 'r, 'm) store" where
  "RPC_metadata this m \<sigma> =
     (this, \<sigma>\<lparr>rpcs := (rpcs \<sigma>)(this := (rpcs \<sigma> this)\<lparr>rpc_metadata := m\<rparr>)\<rparr>)"

section \<open>Handler construction and registration\<close>

text \<open>
  A JavaScript object holds one value for a key. The summary object is a map from keys
  to values; the order in which an object enumerates its keys is not represented.
  \<^verbatim>\<open>Object.fromEntries\<close> writes the entries in order, so a later entry replaces the
  value of an earlier entry with the same key.
\<close>

definition fromEntries :: "(string \<times> 'x) list \<Rightarrow> (string \<rightharpoonup> 'x)" where
  "fromEntries es = foldl (\<lambda>obj (k, v). obj(k \<mapsto> v)) Map.empty es"

text \<open>The object literal \<^verbatim>\<open>{ description: tool.description }\<close>: one field.\<close>

datatype ToolSummary = ToolSummary (summary_description: string)

definition createTools ::
  "('z, 'a, 'c, 'i, 'e, 'r, 'm) store \<Rightarrow> (string \<times> ('c, 'i, 'e, 'r) Tool) list
     \<Rightarrow> (string \<rightharpoonup> ToolSummary)" where
  "createTools \<sigma> ts =
     fromEntries (map (\<lambda>(name, tool). (name, ToolSummary (Tool_description \<sigma> tool))) ts)"

text \<open>
  The object that \<^verbatim>\<open>handler(tools)\<close> returns. Its \<^verbatim>\<open>register\<close> is a closure over
  \<^verbatim>\<open>rpc\<close> and \<^verbatim>\<open>_tools\<close>: the fields \<open>rpc\<close> and \<open>resolved\<close> are these two captured
  variables, and the function \<open>register\<close> below is the closure's body.
  \<^verbatim>\<open>$inferTools\<close> is always \<^verbatim>\<open>undefined\<close> and is left out.
\<close>

record ('c, 'i, 'e, 'r, 'm) Handler =
  rpc :: ref
  resolved :: "(string \<times> ('c, 'i, 'e, 'r) Tool) list"
  tools :: "string \<rightharpoonup> ToolSummary"
  metadata :: "string \<rightharpoonup> 'm"

definition createHandlerFactory ::
  "ref \<Rightarrow> (string \<times> ('c, 'i, 'e, 'r) Tool RootTools) list
     \<Rightarrow> ('z, 'a, 'c, 'i, 'e, 'r, 'm) store \<Rightarrow> ('c, 'i, 'e, 'r, 'm) Handler" where
  "createHandlerFactory r tree \<sigma> =
     (let ts = resolveTools tree None in
      \<lparr>rpc = r, resolved = ts, tools = createTools \<sigma> ts, metadata = rpc_metadata (rpcs \<sigma> r)\<rparr>)"

text \<open>\<^verbatim>\<open>createToolFactory\<close>: \<^verbatim>\<open>(description) => new ToolBuilder(description)\<close>.\<close>

definition createToolFactory ::
  "string \<Rightarrow> ('z, 'a, 'c, 'i, 'e, 'r, 'm) store \<Rightarrow> ref \<times> ('z, 'a, 'c, 'i, 'e, 'r, 'm) store" where
  "createToolFactory d \<sigma> = new_ToolBuilder d \<sigma>"

text \<open>
  \<^verbatim>\<open>create()\<close> returns the two factories, both closed over \<^verbatim>\<open>this\<close>; it reads and
  writes nothing.
\<close>

definition RPC_create ::
  "ref \<Rightarrow>
     ((string \<times> ('c, 'i, 'e, 'r) Tool RootTools) list
        \<Rightarrow> ('z, 'a, 'c, 'i, 'e, 'r, 'm) store \<Rightarrow> ('c, 'i, 'e, 'r, 'm) Handler) \<times>
     (string \<Rightarrow> ('z, 'a, 'c, 'i, 'e, 'r, 'm) store \<Rightarrow> ref \<times> ('z, 'a, 'c, 'i, 'e, 'r, 'm) store)" where
  "RPC_create this = (createHandlerFactory this, createToolFactory)"

text \<open>
  \<^verbatim>\<open>server.tool(name, description, inputSchema, cb)\<close> on the server \<open>s\<close>, for a server
  that accepts the call: the installation is added to the table. A server that refuses
  a call is the subject of \<open>register_on\<close> below.
\<close>

definition McpServer_tool ::
  "ref \<Rightarrow> string \<Rightarrow> string \<Rightarrow> 'z option \<Rightarrow> ('c, 'i, 'e, 'r) callback
     \<Rightarrow> ('z, 'a, 'c, 'i, 'e, 'r, 'm) store \<Rightarrow> ('z, 'a, 'c, 'i, 'e, 'r, 'm) store" where
  "McpServer_tool s n d z cb \<sigma> =
     \<sigma>\<lparr>servers := (servers \<sigma>)(s := servers \<sigma> s @
        [\<lparr>inst_name = n, inst_description = d, inst_inputSchema = z, inst_cb = cb\<rparr>])\<rparr>"

text \<open>
  The loop of \<^verbatim>\<open>register\<close>: \<^verbatim>\<open>for (const [name, tool] of _tools) server.tool(...)\<close>.
  The getters \<^verbatim>\<open>tool.description\<close> and \<^verbatim>\<open>tool.input\<close> are evaluated at each call.
\<close>

fun register_loop ::
  "ref \<Rightarrow> (string \<times> ('c, 'i, 'e, 'r) Tool) list \<Rightarrow> ref
     \<Rightarrow> ('z, 'a, 'c, 'i, 'e, 'r, 'm) store \<Rightarrow> ('z, 'a, 'c, 'i, 'e, 'r, 'm) store" where
  "register_loop r [] server \<sigma> = \<sigma>"
| "register_loop r ((name, tool) # rest) server \<sigma> =
     register_loop r rest server
       (McpServer_tool server name (Tool_description \<sigma> tool) (Tool_input \<sigma> tool)
          (Callback r tool) \<sigma>)"

definition register ::
  "('c, 'i, 'e, 'r, 'm) Handler \<Rightarrow> ref
     \<Rightarrow> ('z, 'a, 'c, 'i, 'e, 'r, 'm) store \<Rightarrow> ('z, 'a, 'c, 'i, 'e, 'r, 'm) store" where
  "register h server \<sigma> = register_loop (rpc h) (resolved h) server \<sigma>"

text \<open>
  The server is not part of the library, and its method \<^verbatim>\<open>tool\<close> may refuse a call by
  throwing. \<^verbatim>\<open>register\<close> has no \<^verbatim>\<open>try\<close>: the loop ends at the call that throws, and
  the failure leaves \<^verbatim>\<open>register\<close>. \<open>register_loop_on\<close> is the loop for a server that is
  given by its method: from the server's table and the installation handed to it, the
  method fails or yields the new table. A failed registration is the failure together
  with the store of that moment, in which the earlier installations stay.
\<close>

type_synonym ('z, 'c, 'i, 'e, 'r) tool_method =
  "('z, 'c, 'i, 'e, 'r) installation list \<Rightarrow> ('z, 'c, 'i, 'e, 'r) installation
     \<Rightarrow> 'e + ('z, 'c, 'i, 'e, 'r) installation list"

fun register_loop_on ::
  "('z, 'c, 'i, 'e, 'r) tool_method \<Rightarrow> ref \<Rightarrow> (string \<times> ('c, 'i, 'e, 'r) Tool) list \<Rightarrow> ref
     \<Rightarrow> ('z, 'a, 'c, 'i, 'e, 'r, 'm) store
     \<Rightarrow> ('e \<times> ('z, 'a, 'c, 'i, 'e, 'r, 'm) store) + ('z, 'a, 'c, 'i, 'e, 'r, 'm) store" where
  "register_loop_on m r [] server \<sigma> = Inr \<sigma>"
| "register_loop_on m r ((name, tool) # rest) server \<sigma> =
     (case m (servers \<sigma> server)
             \<lparr>inst_name = name, inst_description = Tool_description \<sigma> tool,
              inst_inputSchema = Tool_input \<sigma> tool, inst_cb = Callback r tool\<rparr> of
        Inl e \<Rightarrow> Inl (e, \<sigma>)
      | Inr table \<Rightarrow>
          register_loop_on m r rest server (\<sigma>\<lparr>servers := (servers \<sigma>)(server := table)\<rparr>))"

definition register_on ::
  "('z, 'c, 'i, 'e, 'r) tool_method \<Rightarrow> ('c, 'i, 'e, 'r, 'm) Handler \<Rightarrow> ref
     \<Rightarrow> ('z, 'a, 'c, 'i, 'e, 'r, 'm) store
     \<Rightarrow> ('e \<times> ('z, 'a, 'c, 'i, 'e, 'r, 'm) store) + ('z, 'a, 'c, 'i, 'e, 'r, 'm) store" where
  "register_on m h server \<sigma> = register_loop_on m (rpc h) (resolved h) server \<sigma>"

text \<open>The method of a server that accepts every call, as \<open>McpServer_tool\<close> does.\<close>

definition accepting_tool :: "('z, 'c, 'i, 'e, 'r) tool_method" where
  "accepting_tool table inst = Inr (table @ [inst])"

text \<open>
  The method of a server that refuses a name its table already holds, and fails with
  \<open>err name\<close>. The class \<^verbatim>\<open>McpServer\<close> that \<^verbatim>\<open>index.ts\<close> imports is such a server; its
  failure is the error \<^verbatim>\<open>Tool <name> is already registered\<close>.
\<close>

definition refusing_tool :: "(string \<Rightarrow> 'e) \<Rightarrow> ('z, 'c, 'i, 'e, 'r) tool_method" where
  "refusing_tool err table inst =
     (if inst_name inst \<in> inst_name ` set table then Inl (err (inst_name inst))
      else Inr (table @ [inst]))"

definition already_registered :: "string \<Rightarrow> string" where
  "already_registered name = ''Tool '' @ name @ '' is already registered''"

text \<open>
  The body of the registered callback, for a server that invokes it with an input and
  a second argument holding \<^verbatim>\<open>authInfo\<close>:
  \<^verbatim>\<open>const ctx = await rpc.createContext?.({ authInfo }); return tool.fn({ ctx, input })\<close>.
  The registry is read when the callback runs. \<open>await_context\<close> is the first statement:
  an absent factory gives \<^verbatim>\<open>undefined\<close>, a present one is applied and awaited. A
  failing factory ends the callback with its failure; otherwise the handler's outcome is
  the callback's. Factories and handlers are user code, modelled as functions of their
  arguments.
\<close>

definition await_context ::
  "('z, 'a, 'c, 'i, 'e, 'r, 'm) store \<Rightarrow> ref \<Rightarrow> 'a \<Rightarrow> 'e + 'c option" where
  "await_context \<sigma> r authInfo =
     (case createContext (rpcs \<sigma> r) of
        None \<Rightarrow> Inr None
      | Some f \<Rightarrow> f authInfo)"

definition call ::
  "('z, 'a, 'c, 'i, 'e, 'r, 'm) store \<Rightarrow> ('c, 'i, 'e, 'r) callback \<Rightarrow> 'i \<Rightarrow> 'a \<Rightarrow> 'e + 'r" where
  "call \<sigma> cb i authInfo =
     (case cb of Callback r tool \<Rightarrow>
        (case await_context \<sigma> r authInfo of
           Inl e \<Rightarrow> Inl e
         | Inr c \<Rightarrow> fn tool \<lparr>ctx = c, input = i\<rparr>))"

section \<open>The operations of the library, as a program\<close>

text \<open>
  Every call the library offers, with the store it leaves: \<^verbatim>\<open>rpc.tool(description)\<close>,
  \<^verbatim>\<open>builder.input(schema)\<close>, \<^verbatim>\<open>builder.handler(fn)\<close>, \<^verbatim>\<open>createRPCBuilder()\<close>,
  \<^verbatim>\<open>rpc.context(fn)\<close>, \<^verbatim>\<open>rpc.metadata(map)\<close>, \<^verbatim>\<open>rpc.create()\<close>,
  \<^verbatim>\<open>handler(tools)\<close> and \<^verbatim>\<open>register(server)\<close>. \<open>run\<close> performs a sequence of calls.
\<close>

datatype ('z, 'a, 'c, 'i, 'e, 'r, 'm) operation =
    Op_tool string
  | Op_input ref 'z
  | Op_handler ref "('c, 'i) Args \<Rightarrow> 'e + 'r"
  | Op_createRPCBuilder
  | Op_context ref "'a \<Rightarrow> 'e + 'c option"
  | Op_metadata ref "string \<rightharpoonup> 'm"
  | Op_create ref
  | Op_createHandler ref "(string \<times> ('c, 'i, 'e, 'r) Tool RootTools) list"
  | Op_register "('c, 'i, 'e, 'r, 'm) Handler" ref

fun perform ::
  "('z, 'a, 'c, 'i, 'e, 'r, 'm) operation \<Rightarrow> ('z, 'a, 'c, 'i, 'e, 'r, 'm) store
     \<Rightarrow> ('z, 'a, 'c, 'i, 'e, 'r, 'm) store" where
  "perform (Op_tool d) \<sigma> = snd (createToolFactory d \<sigma>)"
| "perform (Op_input b schema) \<sigma> = snd (ToolBuilder_input b schema \<sigma>)"
| "perform (Op_handler b f) \<sigma> = \<sigma>"
| "perform Op_createRPCBuilder \<sigma> = snd (createRPCBuilder \<sigma>)"
| "perform (Op_context r f) \<sigma> = snd (RPC_context r f \<sigma>)"
| "perform (Op_metadata r m) \<sigma> = snd (RPC_metadata r m \<sigma>)"
| "perform (Op_create r) \<sigma> = \<sigma>"
| "perform (Op_createHandler r tree) \<sigma> = \<sigma>"
| "perform (Op_register h server) \<sigma> = register h server \<sigma>"

fun run ::
  "('z, 'a, 'c, 'i, 'e, 'r, 'm) operation list \<Rightarrow> ('z, 'a, 'c, 'i, 'e, 'r, 'm) store
     \<Rightarrow> ('z, 'a, 'c, 'i, 'e, 'r, 'm) store" where
  "run [] \<sigma> = \<sigma>"
| "run (op # ops) \<sigma> = run ops (perform op \<sigma>)"

section \<open>The naming rule of the specification\<close>

text \<open>
  The specification names a tool by the path of keys from the root to it, joined with
  dots. \<open>dotted\<close> joins a path; \<open>dotted_paths\<close> lists the leaves of a tree in depth-first
  pre-order with their dotted paths. Both follow the specification, not the source.
\<close>

fun dotted :: "string list \<Rightarrow> string" where
  "dotted [] = []"
| "dotted [k] = k"
| "dotted (k # k' # ks) = k @ ''.'' @ dotted (k' # ks)"

function dotted_paths ::
  "(string \<times> 't RootTools) list \<Rightarrow> string list \<Rightarrow> (string \<times> 't) list" where
  "dotted_paths [] path = []"
| "dotted_paths ((k, IsTool t) # rest) path =
     (dotted (path @ [k]), t) # dotted_paths rest path"
| "dotted_paths ((k, Nested sub) # rest) path =
     dotted_paths sub (path @ [k]) @ dotted_paths rest path"
  by pat_completeness auto
termination
  by (relation "measure (\<lambda>(tree, path). size_list (size_prod (\<lambda>_. 0) size) tree)") auto

section \<open>A concrete program\<close>

text \<open>
  The store before any object exists, and a small program on it: schemas, authentication
  infos and metadata values are numbers; contexts, inputs, failures and results are
  strings.
\<close>

definition empty_store :: "('z, 'a, 'c, 'i, 'e, 'r, 'm) store" where
  "empty_store =
     \<lparr>builders = (\<lambda>_. \<lparr>description = [], inputSchema = None\<rparr>), next_builder = 0,
      rpcs = (\<lambda>_. \<lparr>createContext = None, rpc_metadata = Map.empty\<rparr>), next_rpc = 0,
      servers = (\<lambda>_. [])\<rparr>"

text \<open>A handler that answers with the user of its context, and one that fails.\<close>

definition ex_echo :: "(string, string) Args \<Rightarrow> string + string" where
  "ex_echo args = (case ctx args of None \<Rightarrow> Inr ''nobody'' | Some u \<Rightarrow> Inr u)"

definition ex_failing :: "(string, string) Args \<Rightarrow> string + string" where
  "ex_failing args = Inl ''boom''"

definition ex_factory :: "nat \<Rightarrow> string + string option" where
  "ex_factory authInfo = Inr (Some ''123'')"

definition ex_factory2 :: "nat \<Rightarrow> string + string option" where
  "ex_factory2 authInfo = Inr (Some ''456'')"

definition ex_denying :: "nat \<Rightarrow> string + string option" where
  "ex_denying authInfo = Inl ''denied''"

text \<open>
  \<^verbatim>\<open>initRPC\<close> is the registry 0, created when the module is loaded. The program sets a
  context factory and makes three builders, 0, 1 and 2.
\<close>

definition ex_store :: "(nat, nat, string, string, string, string, nat) store" where
  "ex_store =
     run [Op_createRPCBuilder, Op_context 0 ex_factory,
          Op_tool ''Tool A'', Op_tool ''Tool C'', Op_tool ''Tool D''] empty_store"

definition ToolA :: "(string, string, string, string) Tool" where
  "ToolA = ToolBuilder_handler 0 ex_echo"

definition ToolC :: "(string, string, string, string) Tool" where
  "ToolC = ToolBuilder_handler 1 ex_echo"

definition ToolD :: "(string, string, string, string) Tool" where
  "ToolD = ToolBuilder_handler 2 ex_failing"

definition ex_tree :: "(string \<times> (string, string, string, string) Tool RootTools) list" where
  "ex_tree = [(''a'', IsTool ToolA), (''b'', Nested [(''c'', IsTool ToolC), (''d'', IsTool ToolD)])]"

definition ex_handler :: "(string, string, string, string, nat) Handler" where
  "ex_handler = createHandlerFactory 0 ex_tree ex_store"

text \<open>A tree with a key that holds a dot: two leaves get the name \<^verbatim>\<open>a.b\<close>.\<close>

definition ex_colliding :: "(string \<times> (string, string, string, string) Tool RootTools) list" where
  "ex_colliding = [(''a.b'', IsTool ToolA), (''a'', Nested [(''b'', IsTool ToolC)])]"

text \<open>The store of a program that never sets a context factory.\<close>

definition ex_bare_store :: "(nat, nat, string, string, string, string, nat) store" where
  "ex_bare_store = run [Op_createRPCBuilder, Op_tool ''Tool A''] empty_store"

text \<open>The store in which the server 0 holds the first installation of \<open>ex_colliding\<close> only.\<close>

definition ex_first_installed :: "(nat, nat, string, string, string, string, nat) store" where
  "ex_first_installed =
     ex_store\<lparr>servers := (servers ex_store)
       (0 := [\<lparr>inst_name = ''a.b'', inst_description = ''Tool A'', inst_inputSchema = None,
               inst_cb = Callback 0 ToolA\<rparr>])\<rparr>"

section \<open>Evaluation of the concrete program and frame lemmas\<close>

lemma ex_store_eval:
  "builders ex_store = (\<lambda>_. \<lparr>description = [], inputSchema = None\<rparr>)
      (0 := \<lparr>description = ''Tool A'', inputSchema = None\<rparr>,
       1 := \<lparr>description = ''Tool C'', inputSchema = None\<rparr>,
       2 := \<lparr>description = ''Tool D'', inputSchema = None\<rparr>)"
  "next_builder ex_store = 3"
  "rpcs ex_store 0 = \<lparr>createContext = Some ex_factory, rpc_metadata = Map.empty\<rparr>"
  "servers ex_store = (\<lambda>_. [])"
  by (simp_all add: ex_store_def empty_store_def createRPCBuilder_def new_RPC_def RPC_context_def
      createToolFactory_def new_ToolBuilder_def numeral_2_eq_2)

lemma McpServer_tool_frame [simp]:
  "builders (McpServer_tool s n d z cb \<sigma>) = builders \<sigma>"
  "next_builder (McpServer_tool s n d z cb \<sigma>) = next_builder \<sigma>"
  "rpcs (McpServer_tool s n d z cb \<sigma>) = rpcs \<sigma>"
  "next_rpc (McpServer_tool s n d z cb \<sigma>) = next_rpc \<sigma>"
  by (simp_all add: McpServer_tool_def)

lemma Tool_getters_McpServer_tool [simp]:
  "Tool_description (McpServer_tool s n d z cb \<sigma>) t = Tool_description \<sigma> t"
  "Tool_input (McpServer_tool s n d z cb \<sigma>) t = Tool_input \<sigma> t"
  by (simp_all add: Tool_description_def Tool_input_def)

lemma register_loop_frame [simp]:
  "builders (register_loop r ts s \<sigma>) = builders \<sigma>"
  "next_builder (register_loop r ts s \<sigma>) = next_builder \<sigma>"
  "rpcs (register_loop r ts s \<sigma>) = rpcs \<sigma>"
  "next_rpc (register_loop r ts s \<sigma>) = next_rpc \<sigma>"
  by (induction r ts s \<sigma> rule: register_loop.induct) simp_all

lemma register_loop_servers:
  "servers (register_loop r ts s \<sigma>) =
     (servers \<sigma>)(s := servers \<sigma> s @
        map (\<lambda>(n, t). \<lparr>inst_name = n, inst_description = Tool_description \<sigma> t,
                        inst_inputSchema = Tool_input \<sigma> t, inst_cb = Callback r t\<rparr>) ts)"
proof (induction r ts s \<sigma> rule: register_loop.induct)
  case (1 r server \<sigma>)
  show ?case by simp
next
  case (2 r name tool rest server \<sigma>)
  have "servers (McpServer_tool server name d z cb \<sigma>) =
      (servers \<sigma>)(server := servers \<sigma> server @
        [\<lparr>inst_name = name, inst_description = d, inst_inputSchema = z, inst_cb = cb\<rparr>])"
    for d z cb
    by (simp add: McpServer_tool_def)
  then show ?case
    by (simp add: 2) (rule ext, simp)
qed

section \<open>The resolver\<close>

text \<open>
  Below the root a parent name always holds a dot or a non-empty key, so the test of
  \<open>fullName\<close> separates exactly the root from the levels below it, unless the parent
  name is the empty string: a top-level key \<^verbatim>\<open>""\<close> over a nested mapping.
\<close>

lemma dotted_snoc: "path \<noteq> [] \<Longrightarrow> dotted (path @ [k]) = dotted path @ ''.'' @ k"
  by (induction path rule: dotted.induct) simp_all

lemma fullName_nested:
  "path \<noteq> [] \<Longrightarrow> dotted path \<noteq> [] \<Longrightarrow> fullName (Some (dotted path)) k = dotted (path @ [k])"
  by (simp add: fullName_def dotted_snoc)

lemma resolveTools_below_root:
  "path \<noteq> [] \<Longrightarrow> dotted path \<noteq> [] \<Longrightarrow>
     resolveTools tree (Some (dotted path)) = dotted_paths tree path"
proof (induction tree path rule: dotted_paths.induct)
  case (1 path)
  show ?case by simp
next
  case (2 k t rest path)
  then show ?case by (simp add: fullName_nested)
next
  case (3 k sub rest path)
  have "dotted (path @ [k]) \<noteq> []"
    using 3(3) by (simp add: dotted_snoc)
  with 3 show ?case by (simp add: fullName_nested)
qed

lemma resolveTools_dotted_paths:
  "\<forall>(k, v) \<in> set tree. k = [] \<longrightarrow> (\<exists>t. v = IsTool t) \<Longrightarrow>
     resolveTools tree None = dotted_paths tree []"
proof (induction tree)
  case Nil
  show ?case by simp
next
  case (Cons e tree)
  obtain k v where e: "e = (k, v)" by (cases e)
  show ?case
  proof (cases v)
    case (IsTool t)
    with Cons e show ?thesis by (simp add: fullName_def)
  next
    case (Nested sub)
    with Cons.prems e have k: "k \<noteq> []" by auto
    then have "resolveTools sub (Some (dotted [k])) = dotted_paths sub [k]"
      by (intro resolveTools_below_root) simp_all
    with Cons e Nested show ?thesis by (simp add: fullName_def)
  qed
qed

text \<open>
  C1. The specification names every tool by the dotted path of keys from the root. The
  resolver does so for every tree with no empty top-level key over a nested mapping
  (\<open>resolveTools_dotted_paths\<close>), the two trees of the specification included
  (\<open>resolveTools_example\<close>, \<open>resolveTools_three_levels\<close>). On the tree
  \<^verbatim>\<open>{ "": { c: Tool1 }, c: Tool2 }\<close> the truthiness test takes the empty parent name for
  an absent one: the nested tool is named \<^verbatim>\<open>c\<close>, not \<^verbatim>\<open>.c\<close>, and collides with the
  top-level \<^verbatim>\<open>c\<close>.
\<close>

theorem resolveTools_empty_key:
  "resolveTools [('''', Nested [(''c'', IsTool (1::nat))]), (''c'', IsTool 2)] None
     = [(''c'', 1), (''c'', 2)] \<and>
   dotted_paths [('''', Nested [(''c'', IsTool (1::nat))]), (''c'', IsTool 2)] []
     = [(''.c'', 1), (''c'', 2)]"
  by (simp add: fullName_def)

lemma resolveTools_example:
  "resolveTools [(''a'', IsTool ta), (''b'', Nested [(''c'', IsTool tc), (''d'', IsTool td)])] None
     = [(''a'', ta), (''b.c'', tc), (''b.d'', td)]"
  by (simp add: fullName_def)

lemma resolveTools_three_levels:
  "resolveTools [(''x'', Nested [(''y'', Nested [(''z'', IsTool t)])])] None = [(''x.y.z'', t)]"
  by (simp add: fullName_def)

section \<open>A Tool reads through its builder\<close>

lemma perform_next_builder: "next_builder \<sigma> \<le> next_builder (perform op \<sigma>)"
  by (cases op)
     (simp_all add: createToolFactory_def new_ToolBuilder_def ToolBuilder_input_def
        createRPCBuilder_def new_RPC_def RPC_context_def RPC_metadata_def register_def)

lemma perform_description:
  "builder t < next_builder \<sigma> \<Longrightarrow> Tool_description (perform op \<sigma>) t = Tool_description \<sigma> t"
  by (cases op)
     (simp_all add: Tool_description_def createToolFactory_def new_ToolBuilder_def
        ToolBuilder_input_def createRPCBuilder_def new_RPC_def RPC_context_def RPC_metadata_def
        register_def)

lemma perform_input:
  "builder t < next_builder \<sigma> \<Longrightarrow>
     Tool_input (perform op \<sigma>) t =
       (case op of
          Op_input b z \<Rightarrow> if b = builder t then Some z else Tool_input \<sigma> t
        | _ \<Rightarrow> Tool_input \<sigma> t)"
  by (cases op)
     (simp_all add: Tool_input_def createToolFactory_def new_ToolBuilder_def
        ToolBuilder_input_def createRPCBuilder_def new_RPC_def RPC_context_def RPC_metadata_def
        register_def)

lemma run_append: "run (ops @ ops') \<sigma> = run ops' (run ops \<sigma>)"
  by (induction ops arbitrary: \<sigma>) simp_all

lemma run_next_builder: "next_builder \<sigma> \<le> next_builder (run ops \<sigma>)"
proof (induction ops arbitrary: \<sigma>)
  case Nil
  show ?case by simp
next
  case (Cons op ops)
  have "next_builder \<sigma> \<le> next_builder (perform op \<sigma>)"
    by (rule perform_next_builder)
  also have "\<dots> \<le> next_builder (run ops (perform op \<sigma>))"
    by (rule Cons.IH)
  finally show ?case by simp
qed

lemma run_description:
  "builder t < next_builder \<sigma> \<Longrightarrow> Tool_description (run ops \<sigma>) t = Tool_description \<sigma> t"
proof (induction ops arbitrary: \<sigma>)
  case Nil
  show ?case by simp
next
  case (Cons op ops)
  from Cons.prems have "builder t < next_builder (perform op \<sigma>)"
    using perform_next_builder [of \<sigma> op] by simp
  then have "Tool_description (run ops (perform op \<sigma>)) t = Tool_description (perform op \<sigma>) t"
    by (rule Cons.IH)
  with Cons.prems show ?case by (simp add: perform_description)
qed

lemma run_input_unchanged:
  "builder t < next_builder \<sigma> \<Longrightarrow> \<forall>z. Op_input (builder t) z \<notin> set ops \<Longrightarrow>
     Tool_input (run ops \<sigma>) t = Tool_input \<sigma> t"
proof (induction ops arbitrary: \<sigma>)
  case Nil
  show ?case by simp
next
  case (Cons op ops)
  from Cons.prems have alloc: "builder t < next_builder (perform op \<sigma>)"
    using perform_next_builder [of \<sigma> op] by simp
  from Cons.prems have "\<forall>z. Op_input (builder t) z \<notin> set ops" by simp
  with alloc have "Tool_input (run ops (perform op \<sigma>)) t = Tool_input (perform op \<sigma>) t"
    by (rule Cons.IH)
  moreover have "Tool_input (perform op \<sigma>) t = Tool_input \<sigma> t"
    using Cons.prems perform_input [of t \<sigma> op] by (cases op) auto
  ultimately show ?case by simp
qed

text \<open>
  C2, as amended. A Tool whose builder exists keeps its description under every sequence
  of operations of the library, and keeps its input schema under every sequence that
  does not call \<^verbatim>\<open>input\<close> on its own builder; a call of \<^verbatim>\<open>input(z)\<close> on that builder,
  after any sequence of operations, makes \<open>z\<close> the schema that the finished Tool shows.
\<close>

theorem Tool_fields_under_operations:
  assumes "builder t < next_builder \<sigma>"
  shows "Tool_description (run ops \<sigma>) t = Tool_description \<sigma> t \<and>
         ((\<forall>z. Op_input (builder t) z \<notin> set ops) \<longrightarrow>
            Tool_input (run ops \<sigma>) t = Tool_input \<sigma> t) \<and>
         Tool_input (run (ops @ [Op_input (builder t) z]) \<sigma>) t = Some z"
proof -
  have "builder t < next_builder (run ops \<sigma>)"
    using assms run_next_builder [of \<sigma> ops] by simp
  then have "Tool_input (perform (Op_input (builder t) z) (run ops \<sigma>)) t = Some z"
    using perform_input [of t "run ops \<sigma>" "Op_input (builder t) z"] by simp
  with assms show ?thesis
    by (simp add: run_description run_input_unchanged run_append)
qed

text \<open>
  C2 as stated fails: \<open>ToolA\<close> was finished with no schema, and a later
  \<^verbatim>\<open>input(7)\<close> on its builder changes the schema that \<open>ToolA\<close> shows.
\<close>

theorem Tool_input_changes_counterexample:
  "Tool_input ex_store ToolA = None \<and>
   Tool_input (perform (Op_input 0 7) ex_store) ToolA = Some 7"
  by (simp add: Tool_input_def ToolA_def ToolBuilder_handler_def ToolBuilder_input_def
      ex_store_eval)

text \<open>The amended C2 at \<open>ToolA\<close>, a new builder and a schema for another builder.\<close>

theorem Tool_fields_under_operations_witness:
  "builder ToolA < next_builder ex_store \<and>
   (\<forall>z. Op_input (builder ToolA) z \<notin> set [Op_tool ''Tool E'', Op_input 1 (5::nat)]) \<and>
   Tool_description (run [Op_tool ''Tool E'', Op_input 1 5] ex_store) ToolA = ''Tool A'' \<and>
   Tool_input (run [Op_tool ''Tool E'', Op_input 1 5] ex_store) ToolA = None \<and>
   Tool_input (run ([Op_tool ''Tool E'', Op_input 1 5] @ [Op_input (builder ToolA) 7]) ex_store) ToolA
     = Some 7"
proof -
  have alloc: "builder ToolA < next_builder ex_store"
    by (simp add: ToolA_def ToolBuilder_handler_def ex_store_eval)
  have other: "\<forall>z. Op_input (builder ToolA) z \<notin> set [Op_tool ''Tool E'', Op_input 1 (5::nat)]"
    by (simp add: ToolA_def ToolBuilder_handler_def)
  have now: "Tool_description ex_store ToolA = ''Tool A''" "Tool_input ex_store ToolA = None"
    by (simp_all add: Tool_description_def Tool_input_def ToolA_def ToolBuilder_handler_def
        ex_store_eval)
  show ?thesis
    using Tool_fields_under_operations [OF alloc, of "[Op_tool ''Tool E'', Op_input 1 5]" 7]
      alloc other now
    by simp
qed

section \<open>Registration and the registered callback\<close>

lemma register_frame [simp]:
  "builders (register h s \<sigma>) = builders \<sigma>"
  "next_builder (register h s \<sigma>) = next_builder \<sigma>"
  "rpcs (register h s \<sigma>) = rpcs \<sigma>"
  "next_rpc (register h s \<sigma>) = next_rpc \<sigma>"
  by (simp_all add: register_def)

lemma register_servers:
  "servers (register h s \<sigma>) =
     (servers \<sigma>)(s := servers \<sigma> s @
        map (\<lambda>(n, t). \<lparr>inst_name = n, inst_description = Tool_description \<sigma> t,
                        inst_inputSchema = Tool_input \<sigma> t, inst_cb = Callback (rpc h) t\<rparr>)
          (resolved h))"
  by (simp add: register_def register_loop_servers)

lemma call_Callback:
  "call \<sigma> (Callback r t) i a =
     (case await_context \<sigma> r a of Inl e \<Rightarrow> Inl e | Inr c \<Rightarrow> fn t \<lparr>ctx = c, input = i\<rparr>)"
  by (simp add: call_def)

lemma call_selectors:
  "call \<sigma> cb i a =
     (case await_context \<sigma> (cb_rpc cb) a of
        Inl e \<Rightarrow> Inl e
      | Inr c \<Rightarrow> fn (cb_tool cb) \<lparr>ctx = c, input = i\<rparr>)"
  by (cases cb) (simp add: call_def split: sum.split)

lemma ex_handler_eval:
  "rpc ex_handler = 0"
  "resolved ex_handler = [(''a'', ToolA), (''b.c'', ToolC), (''b.d'', ToolD)]"
  by (simp_all add: ex_handler_def createHandlerFactory_def ex_tree_def fullName_def Let_def)

lemma ex_descriptions:
  "Tool_description ex_store ToolA = ''Tool A''"
  "Tool_description ex_store ToolC = ''Tool C''"
  "Tool_description ex_store ToolD = ''Tool D''"
  "Tool_input ex_store ToolA = None"
  "Tool_input ex_store ToolC = None"
  "Tool_input ex_store ToolD = None"
  by (simp_all add: Tool_description_def Tool_input_def ToolA_def ToolC_def ToolD_def
      ToolBuilder_handler_def ex_store_eval)

lemma ex_registered:
  "servers (register ex_handler s ex_store) s =
     [\<lparr>inst_name = ''a'', inst_description = ''Tool A'', inst_inputSchema = None,
        inst_cb = Callback 0 ToolA\<rparr>,
      \<lparr>inst_name = ''b.c'', inst_description = ''Tool C'', inst_inputSchema = None,
        inst_cb = Callback 0 ToolC\<rparr>,
      \<lparr>inst_name = ''b.d'', inst_description = ''Tool D'', inst_inputSchema = None,
        inst_cb = Callback 0 ToolD\<rparr>]"
  by (simp add: register_servers ex_handler_eval ex_descriptions ex_store_eval)



text \<open>
  C6. When the registry has no context factory at the time a callback is invoked, the
  context is \<^verbatim>\<open>undefined\<close>, no failure arises from the missing factory, and the
  callback's outcome is the outcome of the Tool's handler on the undefined context and
  the given input: the handler is invoked.
\<close>

theorem missing_factory_gives_undefined_context:
  assumes "createContext (rpcs \<sigma> (cb_rpc cb)) = None"
  shows "await_context \<sigma> (cb_rpc cb) a = Inr None \<and>
         call \<sigma> cb i a = fn (cb_tool cb) \<lparr>ctx = None, input = i\<rparr>"
  using assms by (simp add: call_selectors await_context_def)

text \<open>C6 at a registry that was created and never given a factory: the handler answers.\<close>

theorem missing_factory_gives_undefined_context_witness:
  "createContext (rpcs ex_bare_store (cb_rpc (Callback 0 ToolA))) = None \<and>
   call ex_bare_store (Callback 0 ToolA) ''hello'' 0 = Inr ''nobody''"
proof -
  have none: "createContext (rpcs ex_bare_store (cb_rpc (Callback 0 ToolA))) = None"
    by (simp add: ex_bare_store_def empty_store_def createRPCBuilder_def new_RPC_def
        createToolFactory_def new_ToolBuilder_def)
  show ?thesis
    using missing_factory_gives_undefined_context [OF none, of 0 "''hello''"] none
    by (simp add: ToolA_def ToolBuilder_handler_def ex_echo_def)
qed

text \<open>
  C7. A failure of the context factory is the callback's failure, a failure of the
  Tool's handler is the callback's failure, and the callback fails with \<open>e\<close> only when
  the factory or the handler failed with this same \<open>e\<close>: nothing is swallowed, changed
  or added.
\<close>

theorem failures_pass_through:
  "(await_context \<sigma> (cb_rpc cb) a = Inl e \<longrightarrow> call \<sigma> cb i a = Inl e) \<and>
   (await_context \<sigma> (cb_rpc cb) a = Inr c \<and> fn (cb_tool cb) \<lparr>ctx = c, input = i\<rparr> = Inl e \<longrightarrow>
      call \<sigma> cb i a = Inl e) \<and>
   (call \<sigma> cb i a = Inl e \<longrightarrow>
      await_context \<sigma> (cb_rpc cb) a = Inl e \<or>
      (\<exists>c. await_context \<sigma> (cb_rpc cb) a = Inr c \<and>
           fn (cb_tool cb) \<lparr>ctx = c, input = i\<rparr> = Inl e))"
  by (auto simp: call_selectors split: sum.splits)

text \<open>C7 at a handler that fails with \<^verbatim>\<open>boom\<close> and at a factory that fails with \<^verbatim>\<open>denied\<close>.\<close>

theorem failures_pass_through_witness:
  "await_context ex_store (cb_rpc (Callback 0 ToolD)) 0 = Inr (Some ''123'') \<and>
   fn (cb_tool (Callback 0 ToolD)) \<lparr>ctx = Some ''123'', input = ''hello''\<rparr> = Inl ''boom'' \<and>
   call ex_store (Callback 0 ToolD) ''hello'' 0 = Inl ''boom'' \<and>
   await_context (perform (Op_context 0 ex_denying) ex_store) (cb_rpc (Callback 0 ToolA)) 0
     = Inl ''denied'' \<and>
   call (perform (Op_context 0 ex_denying) ex_store) (Callback 0 ToolA) ''hello'' 0 = Inl ''denied''"
proof -
  have ok: "await_context ex_store (cb_rpc (Callback 0 ToolD)) 0 = Inr (Some ''123'')"
    by (simp add: await_context_def ex_store_eval ex_factory_def)
  have boom: "fn (cb_tool (Callback 0 ToolD)) \<lparr>ctx = Some ''123'', input = ''hello''\<rparr> = Inl ''boom''"
    by (simp add: ToolD_def ToolBuilder_handler_def ex_failing_def)
  have denied:
    "await_context (perform (Op_context 0 ex_denying) ex_store) (cb_rpc (Callback 0 ToolA)) 0
       = Inl ''denied''"
    by (simp add: await_context_def RPC_context_def ex_denying_def)
  show ?thesis
    using failures_pass_through [of ex_store "Callback 0 ToolD" 0 "''boom''" "''hello''" "Some ''123''"]
      failures_pass_through [of "perform (Op_context 0 ex_denying) ex_store" "Callback 0 ToolA" 0
        "''denied''" "''hello''"]
      ok boom denied
    by simp
qed

section \<open>The registry's setters\<close>

text \<open>
  C8. \<^verbatim>\<open>context(fn)\<close> returns the registry it was called on and leaves \<^verbatim>\<open>fn\<close> as
  the one context factory, whatever was set before (a second call replaces the first);
  the metadata is untouched. \<^verbatim>\<open>metadata(map)\<close> returns the registry it was called on
  and leaves exactly \<^verbatim>\<open>map\<close> as the metadata, whatever it was before; the factory is
  untouched.
\<close>

theorem context_and_metadata_replace:
  "fst (RPC_context r f \<sigma>) = r \<and>
   createContext (rpcs (snd (RPC_context r f \<sigma>)) r) = Some f \<and>
   createContext (rpcs (snd (RPC_context r g (snd (RPC_context r f \<sigma>)))) r) = Some g \<and>
   rpc_metadata (rpcs (snd (RPC_context r f \<sigma>)) r) = rpc_metadata (rpcs \<sigma> r) \<and>
   fst (RPC_metadata r m \<sigma>) = r \<and>
   rpc_metadata (rpcs (snd (RPC_metadata r m \<sigma>)) r) = m \<and>
   rpc_metadata (rpcs (snd (RPC_metadata r m' (snd (RPC_metadata r m \<sigma>)))) r) = m' \<and>
   createContext (rpcs (snd (RPC_metadata r m \<sigma>)) r) = createContext (rpcs \<sigma> r)"
  by (simp add: RPC_context_def RPC_metadata_def)

text \<open>
  C3, as amended. Setting a new context factory leaves every server's table as it is,
  and from then on every callback of the registry evaluates the new factory: a callback
  that was registered before the change as well as the callbacks of a handler that the
  handler factory of \<^verbatim>\<open>create()\<close> makes, and that is registered, after it.
\<close>

theorem context_change_reaches_registered_callbacks:
  assumes "cb \<in> inst_cb ` set (servers \<sigma> s)" and "cb_rpc cb = r"
  shows "let \<sigma>' = snd (RPC_context r f \<sigma>);
             \<sigma>'' = register (fst (RPC_create r) tree \<sigma>') s' \<sigma>'
         in servers \<sigma>' = servers \<sigma> \<and>
            call \<sigma>' cb i a =
              (case f a of Inl e \<Rightarrow> Inl e | Inr c \<Rightarrow> fn (cb_tool cb) \<lparr>ctx = c, input = i\<rparr>) \<and>
            (\<forall>cb' \<in> inst_cb ` set (drop (length (servers \<sigma>' s')) (servers \<sigma>'' s')).
               call \<sigma>'' cb' i a =
                 (case f a of Inl e \<Rightarrow> Inl e | Inr c \<Rightarrow> fn (cb_tool cb') \<lparr>ctx = c, input = i\<rparr>))"
proof -
  define \<sigma>' where "\<sigma>' = snd (RPC_context r f \<sigma>)"
  define h where "h = fst (RPC_create r) tree \<sigma>'"
  define \<sigma>'' where "\<sigma>'' = register h s' \<sigma>'"
  have factory: "createContext (rpcs \<sigma>' r) = Some f" "createContext (rpcs \<sigma>'' r) = Some f"
    by (simp_all add: \<sigma>'_def \<sigma>''_def RPC_context_def)
  have table: "servers \<sigma>' = servers \<sigma>"
    by (simp add: \<sigma>'_def RPC_context_def)
  have old: "call \<sigma>' cb i a =
      (case f a of Inl e \<Rightarrow> Inl e | Inr c \<Rightarrow> fn (cb_tool cb) \<lparr>ctx = c, input = i\<rparr>)"
    using assms(2) factory by (simp add: call_selectors await_context_def)
  have new: "call \<sigma>'' cb' i a =
      (case f a of Inl e \<Rightarrow> Inl e | Inr c \<Rightarrow> fn (cb_tool cb') \<lparr>ctx = c, input = i\<rparr>)"
    if "cb' \<in> inst_cb ` set (drop (length (servers \<sigma>' s')) (servers \<sigma>'' s'))" for cb'
  proof -
    from that have "cb_rpc cb' = r"
      by (auto simp: \<sigma>''_def h_def register_servers RPC_create_def createHandlerFactory_def
          Let_def)
    with factory show ?thesis
      by (simp add: call_selectors await_context_def)
  qed
  from table old new show ?thesis
    unfolding Let_def \<sigma>'_def [symmetric] h_def [symmetric] \<sigma>''_def [symmetric] by blast
qed

text \<open>
  C3 as stated fails: the callback of \<^verbatim>\<open>a\<close> is registered while the factory yields the
  user \<^verbatim>\<open>123\<close>; after \<^verbatim>\<open>context\<close> sets a factory that yields \<^verbatim>\<open>456\<close>, the same
  callback, in the unchanged table, answers \<^verbatim>\<open>456\<close>.
\<close>

theorem registered_callback_sees_new_factory_counterexample:
  "inst_cb (servers (register ex_handler 0 ex_store) 0 ! 0) = Callback 0 ToolA \<and>
   call (register ex_handler 0 ex_store) (Callback 0 ToolA) ''hello'' 0 = Inr ''123'' \<and>
   servers (perform (Op_context 0 ex_factory2) (register ex_handler 0 ex_store)) 0
     = servers (register ex_handler 0 ex_store) 0 \<and>
   call (perform (Op_context 0 ex_factory2) (register ex_handler 0 ex_store))
     (Callback 0 ToolA) ''hello'' 0 = Inr ''456''"
  by (simp add: ex_registered call_Callback await_context_def RPC_context_def ex_store_eval
      ex_factory_def ex_factory2_def ToolA_def ToolBuilder_handler_def ex_echo_def)

text \<open>The amended C3 at the callback of \<^verbatim>\<open>a\<close> registered before and of \<^verbatim>\<open>b.c\<close> registered after.\<close>

theorem context_change_reaches_registered_callbacks_witness:
  "Callback 0 ToolA \<in> inst_cb ` set (servers (register ex_handler 0 ex_store) 0) \<and>
   cb_rpc (Callback 0 ToolA) = 0 \<and>
   call (snd (RPC_context 0 ex_factory2 (register ex_handler 0 ex_store)))
     (Callback 0 ToolA) ''hello'' 0 = Inr ''456'' \<and>
   Callback 0 ToolC \<in> inst_cb ` set
     (drop (length (servers (snd (RPC_context 0 ex_factory2 (register ex_handler 0 ex_store))) 1))
        (servers (register
           (createHandlerFactory 0 ex_tree
              (snd (RPC_context 0 ex_factory2 (register ex_handler 0 ex_store))))
           1 (snd (RPC_context 0 ex_factory2 (register ex_handler 0 ex_store)))) 1)) \<and>
   call (register
           (createHandlerFactory 0 ex_tree
              (snd (RPC_context 0 ex_factory2 (register ex_handler 0 ex_store))))
           1 (snd (RPC_context 0 ex_factory2 (register ex_handler 0 ex_store))))
     (Callback 0 ToolC) ''hello'' 0 = Inr ''456''"
proof -
  have installed: "Callback 0 ToolA \<in> inst_cb ` set (servers (register ex_handler 0 ex_store) 0)"
    by (simp add: ex_registered)
  have mine: "cb_rpc (Callback 0 ToolA) = 0"
    by simp
  have later: "Callback 0 ToolC \<in> inst_cb ` set
     (drop (length (servers (snd (RPC_context 0 ex_factory2 (register ex_handler 0 ex_store))) 1))
        (servers (register
           (createHandlerFactory 0 ex_tree
              (snd (RPC_context 0 ex_factory2 (register ex_handler 0 ex_store))))
           1 (snd (RPC_context 0 ex_factory2 (register ex_handler 0 ex_store)))) 1))"
    by (simp add: register_servers createHandlerFactory_def ex_tree_def fullName_def Let_def
        RPC_context_def ex_store_eval)
  have answers:
    "(case ex_factory2 0 of Inl e \<Rightarrow> Inl e
      | Inr c \<Rightarrow> fn (cb_tool (Callback 0 ToolA)) \<lparr>ctx = c, input = ''hello''\<rparr>) = Inr ''456''"
    "(case ex_factory2 0 of Inl e \<Rightarrow> Inl e
      | Inr c \<Rightarrow> fn (cb_tool (Callback 0 ToolC)) \<lparr>ctx = c, input = ''hello''\<rparr>) = Inr ''456''"
    by (simp_all add: ex_factory2_def ToolA_def ToolC_def ToolBuilder_handler_def ex_echo_def)
  note both = context_change_reaches_registered_callbacks
      [OF installed mine, of ex_factory2 ex_tree 1 "''hello''" 0,
        unfolded Let_def RPC_create_def fst_conv]
  have old: "call (snd (RPC_context 0 ex_factory2 (register ex_handler 0 ex_store)))
       (Callback 0 ToolA) ''hello'' 0 = Inr ''456''"
    using both [THEN conjunct2, THEN conjunct1] answers(1) by simp
  have new: "call (register
           (createHandlerFactory 0 ex_tree
              (snd (RPC_context 0 ex_factory2 (register ex_handler 0 ex_store))))
           1 (snd (RPC_context 0 ex_factory2 (register ex_handler 0 ex_store))))
       (Callback 0 ToolC) ''hello'' 0 = Inr ''456''"
    using both [THEN conjunct2, THEN conjunct2, THEN bspec, OF later] answers(2) by simp
  from installed mine old later new show ?thesis
    by (intro conjI)
qed

section \<open>One handler, several servers\<close>

lemma register_other_server: "s' \<noteq> s \<Longrightarrow> servers (register h s \<sigma>) s' = servers \<sigma> s'"
  by (simp add: register_servers)

lemma Tool_getters_register [simp]:
  "Tool_description (register h s \<sigma>) t = Tool_description \<sigma> t"
  "Tool_input (register h s \<sigma>) t = Tool_input \<sigma> t"
  by (simp_all add: Tool_description_def Tool_input_def)



section \<open>The tools summary\<close>

lemma foldl_upd_map_of:
  "foldl (\<lambda>obj (k, v). obj(k \<mapsto> v)) m es = m ++ map_of (rev es)"
proof (induction es arbitrary: m)
  case Nil
  show ?case by simp
next
  case (Cons e es)
  obtain k v where e: "e = (k, v)" by (cases e)
  have "m(k \<mapsto> v) ++ map_of (rev es) = m ++ (map_of (rev es @ [(k, v)]))"
    by (simp add: map_add_def fun_eq_iff split: option.split)
  with Cons e show ?case by (simp add: fun_upd_def)
qed

lemma fromEntries_map_of: "fromEntries es = map_of (rev es)"
  by (simp add: fromEntries_def foldl_upd_map_of)

lemma dom_fromEntries: "dom (fromEntries es) = fst ` set es"
  by (simp add: fromEntries_map_of dom_map_of_conv_image_fst)

lemma fromEntries_member: "fromEntries es k = Some v \<Longrightarrow> (k, v) \<in> set es"
  using map_of_SomeD [of "rev es" k v] by (simp add: fromEntries_map_of)

lemma fromEntries_distinct:
  "distinct (map fst es) \<Longrightarrow> (k, v) \<in> set es \<Longrightarrow> fromEntries es k = Some v"
  by (simp add: fromEntries_map_of rev_map [symmetric])

lemma map_of_rev_last:
  assumes "j < length es" and "\<forall>k. j < k \<and> k < length es \<longrightarrow> fst (es ! k) \<noteq> fst (es ! j)"
  shows "map_of (rev es) (fst (es ! j)) = Some (snd (es ! j))"
proof -
  have split: "es = take j es @ es ! j # drop (Suc j) es"
    using assms(1) by (rule id_take_nth_drop)
  have "fst (es ! j) \<notin> fst ` set (drop (Suc j) es)"
  proof
    assume "fst (es ! j) \<in> fst ` set (drop (Suc j) es)"
    then obtain e where e: "e \<in> set (drop (Suc j) es)" "fst e = fst (es ! j)"
      by auto
    then obtain m where m: "m < length (drop (Suc j) es)" "drop (Suc j) es ! m = e"
      by (auto simp: in_set_conv_nth)
    with assms(1) have "Suc j + m < length es" "es ! (Suc j + m) = e"
      by simp_all
    with assms(2) e(2) show False by auto
  qed
  then have later: "map_of (rev (drop (Suc j) es)) (fst (es ! j)) = None"
    by (simp add: map_of_eq_None_iff)
  have "map_of (rev es) = map_of (rev (take j es)) ++ [fst (es ! j) \<mapsto> snd (es ! j)]
      ++ map_of (rev (drop (Suc j) es))"
    by (subst split) simp
  with later show ?thesis
    by (simp add: map_add_def)
qed

text \<open>
  C4. The summary of a handler has a value for exactly the names that flattening its
  tree produces, and for no other key. Every value is an object whose only content is
  the description of a Tool that flattening pairs with the name (the type
  \<open>ToolSummary\<close> has no field for a schema or a handler). When the flattened names are
  distinct, the name of every flattened pair is mapped to the description of the Tool
  of that pair.
\<close>

theorem tools_summary_of_handler:
  "let h = createHandlerFactory r tree \<sigma>; ts = resolveTools tree None in
     dom (tools h) = fst ` set ts \<and>
     (\<forall>n s. tools h n = Some s \<longrightarrow>
        (\<exists>t. (n, t) \<in> set ts \<and> s = ToolSummary (Tool_description \<sigma> t))) \<and>
     (distinct (map fst ts) \<longrightarrow>
        (\<forall>(n, t) \<in> set ts. tools h n = Some (ToolSummary (Tool_description \<sigma> t))))"
proof -
  define ts where "ts = resolveTools tree None"
  define es where "es = map (\<lambda>(n, t). (n, ToolSummary (Tool_description \<sigma> t))) ts"
  have summary: "tools (createHandlerFactory r tree \<sigma>) = fromEntries es"
    by (simp add: createHandlerFactory_def createTools_def Let_def es_def ts_def)
  have keys: "map fst es = map fst ts"
    by (simp add: es_def comp_def case_prod_unfold)
  have "dom (fromEntries es) = fst ` set ts"
  proof -
    have "dom (fromEntries es) = set (map fst es)"
      by (simp add: dom_fromEntries)
    also have "\<dots> = fst ` set ts"
      by (simp add: keys)
    finally show ?thesis .
  qed
  moreover have "\<exists>t. (n, t) \<in> set ts \<and> s = ToolSummary (Tool_description \<sigma> t)"
    if "fromEntries es n = Some s" for n s
  proof -
    from that have "(n, s) \<in> set es" by (rule fromEntries_member)
    then show ?thesis by (auto simp: es_def)
  qed
  moreover have "fromEntries es n = Some (ToolSummary (Tool_description \<sigma> t))"
    if "distinct (map fst ts)" and "(n, t) \<in> set ts" for n t
  proof -
    from that(2) have "(n, ToolSummary (Tool_description \<sigma> t)) \<in> set es"
      by (force simp: es_def)
    with that(1) keys show ?thesis
      by (intro fromEntries_distinct) simp_all
  qed
  ultimately show ?thesis
    unfolding Let_def ts_def [symmetric] summary by blast
qed

text \<open>C4 at the tree \<^verbatim>\<open>{ a: ToolA, b: { c: ToolC, d: ToolD } }\<close>.\<close>

theorem tools_summary_of_handler_witness:
  "tools (createHandlerFactory 0 ex_tree ex_store) ''b.c'' = Some (ToolSummary ''Tool C'') \<and>
   (''b.c'', ToolC) \<in> set (resolveTools ex_tree None) \<and>
   distinct (map fst (resolveTools ex_tree None)) \<and>
   dom (tools (createHandlerFactory 0 ex_tree ex_store)) = {''a'', ''b.c'', ''b.d''} \<and>
   tools (createHandlerFactory 0 ex_tree ex_store) ''a'' = Some (ToolSummary ''Tool A'') \<and>
   tools (createHandlerFactory 0 ex_tree ex_store) ''b.d'' = Some (ToolSummary ''Tool D'')"
proof -
  have flat: "resolveTools ex_tree None = [(''a'', ToolA), (''b.c'', ToolC), (''b.d'', ToolD)]"
    by (simp add: ex_tree_def fullName_def)
  have names: "distinct (map fst (resolveTools ex_tree None))"
    by (simp add: flat)
  note summary = tools_summary_of_handler [of 0 ex_tree ex_store, unfolded Let_def]
  from summary names
  have each: "\<forall>(n, t) \<in> set (resolveTools ex_tree None).
      tools (createHandlerFactory 0 ex_tree ex_store) n = Some (ToolSummary (Tool_description ex_store t))"
    by blast
  from summary have keys: "dom (tools (createHandlerFactory 0 ex_tree ex_store)) = {''a'', ''b.c'', ''b.d''}"
    by (simp add: flat)
  from each names keys show ?thesis
    by (simp add: flat ex_descriptions)
qed

section \<open>Two pairs with one name\<close>

text \<open>
  The loop on a server given by its method: a registration over a list is the
  registration over a first part followed, when that succeeds, by the rest; on the
  accepting server it is \<open>register\<close>; under the refusing server the table holds the
  names handed over so far.
\<close>

lemma register_loop_on_append:
  "register_loop_on m r (xs @ ys) s \<sigma> =
     (case register_loop_on m r xs s \<sigma> of
        Inl failed \<Rightarrow> Inl failed
      | Inr \<sigma>' \<Rightarrow> register_loop_on m r ys s \<sigma>')"
  by (induction m r xs s \<sigma> rule: register_loop_on.induct) (simp_all split: sum.split)

lemma register_loop_on_accepting:
  "register_loop_on accepting_tool r ts s \<sigma> = Inr (register_loop r ts s \<sigma>)"
proof (induction r ts s \<sigma> rule: register_loop.induct)
  case (1 r server \<sigma>)
  show ?case by simp
next
  case (2 r name tool rest server \<sigma>)
  then show ?case
    by (simp add: accepting_tool_def McpServer_tool_def)
qed

lemma register_on_accepting: "register_on accepting_tool h s \<sigma> = Inr (register h s \<sigma>)"
  by (simp add: register_on_def register_def register_loop_on_accepting)

lemma register_loop_on_fails_at:
  assumes "j < length ts"
    and "register_loop_on m r (take j ts) s \<sigma> = Inr \<sigma>j"
    and "m (servers \<sigma>j s)
           \<lparr>inst_name = fst (ts ! j), inst_description = Tool_description \<sigma>j (snd (ts ! j)),
            inst_inputSchema = Tool_input \<sigma>j (snd (ts ! j)), inst_cb = Callback r (snd (ts ! j))\<rparr>
         = Inl e"
  shows "register_loop_on m r ts s \<sigma> = Inl (e, \<sigma>j)"
proof -
  obtain n t where nt: "ts ! j = (n, t)"
    by (cases "ts ! j")
  have "ts = take j ts @ (n, t) # drop (Suc j) ts"
    using id_take_nth_drop [OF assms(1)] nt by simp
  then have "register_loop_on m r ts s \<sigma> =
      register_loop_on m r ((n, t) # drop (Suc j) ts) s \<sigma>j"
    using assms(2) register_loop_on_append [of m r "take j ts" "(n, t) # drop (Suc j) ts" s \<sigma>]
    by simp
  with assms(3) nt show ?thesis by simp
qed

lemma refusing_tool_names:
  "register_loop_on (refusing_tool err) r xs s \<sigma> = Inr \<sigma>' \<Longrightarrow>
     inst_name ` set (servers \<sigma>' s) = inst_name ` set (servers \<sigma> s) \<union> fst ` set xs"
proof (induction xs arbitrary: \<sigma>)
  case Nil
  then show ?case by simp
next
  case (Cons x xs)
  obtain n t where x: "x = (n, t)" by (cases x)
  define inst where "inst = \<lparr>inst_name = n, inst_description = Tool_description \<sigma> t,
      inst_inputSchema = Tool_input \<sigma> t, inst_cb = Callback r t\<rparr>"
  define \<sigma>1 where "\<sigma>1 = \<sigma>\<lparr>servers := (servers \<sigma>)(s := servers \<sigma> s @ [inst])\<rparr>"
  have verdict: "refusing_tool err (servers \<sigma> s) inst =
      (if n \<in> inst_name ` set (servers \<sigma> s) then Inl (err n) else Inr (servers \<sigma> s @ [inst]))"
    by (simp add: refusing_tool_def inst_def)
  from Cons.prems x
  have run: "(case refusing_tool err (servers \<sigma> s) inst of
        Inl e \<Rightarrow> Inl (e, \<sigma>)
      | Inr table \<Rightarrow>
          register_loop_on (refusing_tool err) r xs s (\<sigma>\<lparr>servers := (servers \<sigma>)(s := table)\<rparr>))
      = Inr \<sigma>'"
    by (simp add: inst_def)
  have fresh: "n \<notin> inst_name ` set (servers \<sigma> s)"
    using run unfolding verdict by (auto split: if_splits)
  with run have "register_loop_on (refusing_tool err) r xs s \<sigma>1 = Inr \<sigma>'"
    unfolding verdict by (simp add: \<sigma>1_def)
  then have "inst_name ` set (servers \<sigma>' s) = inst_name ` set (servers \<sigma>1 s) \<union> fst ` set xs"
    by (rule Cons.IH)
  then show ?case
    by (auto simp: \<sigma>1_def inst_def x)
qed

text \<open>
  C10, as amended. Let the pairs at the positions \<open>i < j\<close> of the flattened list have
  the same name, and let no later pair have it. \<^verbatim>\<open>register\<close> checks no name and hands
  the pairs to the server in resolution order. On a server that accepts every call both
  callbacks are installed, in that order, under the shared name, each for its own Tool.
  On a server that refuses a name its table already holds, once the pairs before \<open>j\<close>
  are installed the call for \<open>j\<close> is refused: \<^verbatim>\<open>register\<close> fails with the server's
  failure for that name, in the store where only the pairs before \<open>j\<close> are installed.
  The summary maps the name, which as a key of an object it holds once, to the
  description of the Tool at \<open>j\<close>, the later one.
\<close>

theorem colliding_names_reach_the_server:
  assumes "i < j" and "j < length (resolveTools tree None)"
    and "fst (resolveTools tree None ! i) = fst (resolveTools tree None ! j)"
    and "\<forall>k. j < k \<and> k < length (resolveTools tree None) \<longrightarrow>
           fst (resolveTools tree None ! k) \<noteq> fst (resolveTools tree None ! j)"
  shows "let h = createHandlerFactory r tree \<sigma>0;
             ts = resolveTools tree None;
             \<sigma>' = register h s \<sigma>;
             base = length (servers \<sigma> s)
         in register_on accepting_tool h s \<sigma> = Inr \<sigma>' \<and>
            length (servers \<sigma>' s) = base + length ts \<and>
            inst_name (servers \<sigma>' s ! (base + i)) = fst (ts ! j) \<and>
            inst_cb (servers \<sigma>' s ! (base + i)) = Callback r (snd (ts ! i)) \<and>
            inst_name (servers \<sigma>' s ! (base + j)) = fst (ts ! j) \<and>
            inst_cb (servers \<sigma>' s ! (base + j)) = Callback r (snd (ts ! j)) \<and>
            (register_loop_on (refusing_tool err) r (take j ts) s \<sigma> = Inr \<sigma>j \<longrightarrow>
               register_on (refusing_tool err) h s \<sigma> = Inl (err (fst (ts ! j)), \<sigma>j)) \<and>
            tools h (fst (ts ! j)) = Some (ToolSummary (Tool_description \<sigma>0 (snd (ts ! j))))"
proof -
  define ts where "ts = resolveTools tree None"
  define h where "h = createHandlerFactory r tree \<sigma>0"
  define es where "es = map (\<lambda>(n, t). (n, ToolSummary (Tool_description \<sigma>0 t))) ts"
  note prems = assms [folded ts_def]
  have h: "rpc h = r" "resolved h = ts" "tools h = fromEntries es"
    by (simp_all add: h_def createHandlerFactory_def createTools_def Let_def es_def ts_def)
  have i: "i < length ts"
    using prems(1,2) by simp
  have table: "servers (register h s \<sigma>) s =
      servers \<sigma> s @ map (\<lambda>(n, t). \<lparr>inst_name = n, inst_description = Tool_description \<sigma> t,
                        inst_inputSchema = Tool_input \<sigma> t, inst_cb = Callback r t\<rparr>) ts"
    by (simp add: register_servers h)
  have installed:
    "inst_name (servers (register h s \<sigma>) s ! (length (servers \<sigma> s) + k)) = fst (ts ! k)"
    "inst_cb (servers (register h s \<sigma>) s ! (length (servers \<sigma> s) + k)) = Callback r (snd (ts ! k))"
    if "k < length ts" for k
    using that by (simp_all add: table case_prod_unfold)
  have refused: "register_on (refusing_tool err) h s \<sigma> = Inl (err (fst (ts ! j)), \<sigma>j)"
    if first: "register_loop_on (refusing_tool err) r (take j ts) s \<sigma> = Inr \<sigma>j"
  proof -
    have "take j ts ! i = ts ! i" "i < length (take j ts)"
      using prems(1,2) by simp_all
    then have "fst (ts ! i) \<in> fst ` set (take j ts)"
      by (metis imageI nth_mem)
    with prems(3) have "fst (ts ! j) \<in> inst_name ` set (servers \<sigma>j s)"
      using refusing_tool_names [OF first] by simp
    then have "refusing_tool err (servers \<sigma>j s)
        \<lparr>inst_name = fst (ts ! j), inst_description = Tool_description \<sigma>j (snd (ts ! j)),
         inst_inputSchema = Tool_input \<sigma>j (snd (ts ! j)), inst_cb = Callback r (snd (ts ! j))\<rparr>
        = Inl (err (fst (ts ! j)))"
      by (simp add: refusing_tool_def)
    with prems(2) first have "register_loop_on (refusing_tool err) r ts s \<sigma>
        = Inl (err (fst (ts ! j)), \<sigma>j)"
      by (rule register_loop_on_fails_at)
    then show ?thesis by (simp add: register_on_def h)
  qed
  have length_es: "length es = length ts"
    by (simp add: es_def)
  have fst_es: "fst (es ! k) = fst (ts ! k)" if "k < length ts" for k
    using that by (simp add: es_def case_prod_unfold)
  have snd_es: "snd (es ! j) = ToolSummary (Tool_description \<sigma>0 (snd (ts ! j)))"
    using prems(2) by (simp add: es_def case_prod_unfold)
  have "\<forall>k. j < k \<and> k < length es \<longrightarrow> fst (es ! k) \<noteq> fst (es ! j)"
    using prems(2,4) by (simp add: length_es fst_es)
  with prems(2) have "map_of (rev es) (fst (es ! j)) = Some (snd (es ! j))"
    by (intro map_of_rev_last) (simp_all add: length_es)
  then have last_wins: "tools h (fst (ts ! j)) =
      Some (ToolSummary (Tool_description \<sigma>0 (snd (ts ! j))))"
    using prems(2) by (simp add: h fromEntries_map_of fst_es snd_es)
  from installed [OF i] installed [OF prems(2)] prems(3) last_wins refused show ?thesis
    unfolding Let_def h_def [symmetric] ts_def [symmetric]
    by (simp add: table register_on_accepting)
qed

text \<open>The tree \<^verbatim>\<open>{ "a.b": ToolA, a: { b: ToolC } }\<close> and the refusing server.\<close>

lemma ex_colliding_flat: "resolveTools ex_colliding None = [(''a.b'', ToolA), (''a.b'', ToolC)]"
  by (simp add: ex_colliding_def fullName_def)

lemma ex_colliding_first:
  "register_loop_on (refusing_tool already_registered) 0 [(''a.b'', ToolA)] 0 ex_store
     = Inr ex_first_installed"
  by (simp add: refusing_tool_def ex_first_installed_def ex_store_eval ex_descriptions)

text \<open>
  C10 as stated fails: on a server that refuses a repeated name, as \<^verbatim>\<open>McpServer\<close>
  does, \<^verbatim>\<open>register\<close> of the tree \<^verbatim>\<open>{ "a.b": ToolA, a: { b: ToolC } }\<close> ends with the
  failure \<^verbatim>\<open>Tool a.b is already registered\<close>; the table holds the callback of ToolA
  and not that of ToolC.
\<close>

theorem second_installation_refused_counterexample:
  "register_on (refusing_tool already_registered)
     (createHandlerFactory 0 ex_colliding ex_store) 0 ex_store
     = Inl (''Tool a.b is already registered'', ex_first_installed) \<and>
   servers ex_first_installed 0 =
     [\<lparr>inst_name = ''a.b'', inst_description = ''Tool A'', inst_inputSchema = None,
       inst_cb = Callback 0 ToolA\<rparr>]"
  by (simp add: register_on_def createHandlerFactory_def Let_def ex_colliding_flat
      refusing_tool_def already_registered_def ex_first_installed_def ex_store_eval ex_descriptions)

text \<open>
  The amended C10 at the same tree: both callbacks on the accepting server, the refusal
  at the second pair on the refusing server, and the summary that describes \<^verbatim>\<open>a.b\<close>
  as Tool C.
\<close>

theorem colliding_names_reach_the_server_witness:
  "(0::nat) < 1 \<and> 1 < length (resolveTools ex_colliding None) \<and>
   fst (resolveTools ex_colliding None ! 0) = fst (resolveTools ex_colliding None ! 1) \<and>
   map inst_name (servers (register (createHandlerFactory 0 ex_colliding ex_store) 0 ex_store) 0)
     = [''a.b'', ''a.b''] \<and>
   inst_cb (servers (register (createHandlerFactory 0 ex_colliding ex_store) 0 ex_store) 0 ! 0)
     = Callback 0 ToolA \<and>
   inst_cb (servers (register (createHandlerFactory 0 ex_colliding ex_store) 0 ex_store) 0 ! 1)
     = Callback 0 ToolC \<and>
   register_loop_on (refusing_tool already_registered) 0 (take 1 (resolveTools ex_colliding None))
     0 ex_store = Inr ex_first_installed \<and>
   register_on (refusing_tool already_registered)
     (createHandlerFactory 0 ex_colliding ex_store) 0 ex_store
     = Inl (already_registered ''a.b'', ex_first_installed) \<and>
   tools (createHandlerFactory 0 ex_colliding ex_store) ''a.b'' = Some (ToolSummary ''Tool C'')"
proof -
  have order: "(0::nat) < 1" by simp
  have j: "1 < length (resolveTools ex_colliding None)"
    by (simp add: ex_colliding_flat)
  have same: "fst (resolveTools ex_colliding None ! 0) = fst (resolveTools ex_colliding None ! 1)"
    by (simp add: ex_colliding_flat)
  have last: "\<forall>k. 1 < k \<and> k < length (resolveTools ex_colliding None) \<longrightarrow>
      fst (resolveTools ex_colliding None ! k) \<noteq> fst (resolveTools ex_colliding None ! 1)"
    by (simp add: ex_colliding_flat)
  have names: "map inst_name
      (servers (register (createHandlerFactory 0 ex_colliding ex_store) 0 ex_store) 0)
     = [''a.b'', ''a.b'']"
    by (simp add: register_servers createHandlerFactory_def Let_def ex_colliding_flat ex_store_eval)
  have first: "register_loop_on (refusing_tool already_registered) 0
      (take 1 (resolveTools ex_colliding None)) 0 ex_store = Inr ex_first_installed"
    by (simp add: ex_colliding_flat ex_colliding_first del: register_loop_on.simps)
  show ?thesis
    using colliding_names_reach_the_server
      [OF order j same last, of 0 ex_store 0 ex_store already_registered ex_first_installed]
      names first same
    by (simp add: Let_def ex_colliding_flat ex_store_eval ex_descriptions)
qed

end
